theory Spec2Isabelle
  imports Complex_Main "HOL-Library.Word" "HOL-Library.Sublist"
begin

section \<open>JavaScript strings and values\<close>

text \<open>
  A JavaScript string is a sequence of UTF-16 code units. The user interface texts of the
  front end are Turkish, so the code units above 127 are written out as numbers;
  \<open>js\<close> embeds an ASCII literal.
\<close>

type_synonym jsstring = "16 word list"

definition js :: "string \<Rightarrow> jsstring" where
  "js s = map of_char s"

text \<open>
  \<open>String.prototype.trim\<close> removes the ECMAScript WhiteSpace and LineTerminator code
  points from both ends.
\<close>

definition isWhiteSpace :: "16 word \<Rightarrow> bool" where
  "isWhiteSpace c \<longleftrightarrow>
     c \<in> {0x0009, 0x000A, 0x000B, 0x000C, 0x000D, 0x0020, 0x00A0, 0x1680,
          0x2028, 0x2029, 0x202F, 0x205F, 0x3000, 0xFEFF}
     \<or> (0x2000 \<le> c \<and> c \<le> 0x200A)"

definition trim :: "jsstring \<Rightarrow> jsstring" where
  "trim s = rev (dropWhile isWhiteSpace (rev (dropWhile isWhiteSpace s)))"

text \<open>
  The primitive values an option of the API client can hold. A number is a finite real,
  an infinity or NaN; \<open>-0\<close> is \<open>Finite 0\<close>.
\<close>

datatype jsnumber = NaN | PlusInfinity | MinusInfinity | Finite real

datatype jsval =
    JSUndefined
  | JSNull
  | JSBoolean bool
  | JSNumber jsnumber
  | JSString jsstring

text \<open>ToBoolean, the test of \<open>if (v)\<close> and of \<open>v || w\<close>.\<close>

fun truthy :: "jsval \<Rightarrow> bool" where
  "truthy JSUndefined = False"
| "truthy JSNull = False"
| "truthy (JSBoolean b) = b"
| "truthy (JSNumber n) = (n \<noteq> NaN \<and> n \<noteq> Finite 0)"
| "truthy (JSString s) = (s \<noteq> [])"


section \<open>The API client (services/api.js)\<close>

text \<open>
  A browser \<open>File\<close>: its name, its size in bytes and its MIME type.
\<close>

record upload_file =
  file_name :: jsstring
  file_size :: nat
  file_type :: jsstring

datatype http_method = GET | POST | DELETE

datatype body = NoBody | FormData "(string \<times> upload_file) list"

text \<open>
  A request handed to axios. \<open>url\<close> is the text of the template literal before the
  serialised parameters, \<open>search_params\<close> the entries of the \<open>URLSearchParams\<close> object in
  insertion order: the request goes to \<open>url\<close> followed by \<open>params.toString()\<close>. An entry
  \<open>(name, v)\<close> stands for the pair of \<open>name\<close> and the string \<open>ToString(v)\<close> that
  \<open>append\<close> stores; the serialisation itself is the browser's.
\<close>

record request =
  request_method :: http_method
  url :: jsstring
  search_params :: "(string \<times> jsval) list"
  content_type :: string
  body :: body

text \<open>
  A rejected axios promise: \<open>error.response?.data?.detail\<close> when the server sent one,
  and \<open>error.message\<close>.
\<close>

record api_error =
  detail :: "jsstring option"
  message :: jsstring

text \<open>\<open>error.response?.data?.detail || fallback\<close>: an empty detail is falsy.\<close>

definition detail_or :: "api_error \<Rightarrow> jsstring \<Rightarrow> jsstring" where
  "detail_or err fallback =
     (case detail err of
        None \<Rightarrow> fallback
      | Some d \<Rightarrow> if d \<noteq> [] then d else fallback)"

text \<open>
  The \<open>options\<close> argument of the question calls. \<open>document_ids\<close> is an array when
  present; \<open>None\<close> is an absent (or otherwise falsy) property.
\<close>

record options =
  top_k :: jsval
  min_relevance_score :: jsval
  document_ids :: "jsval list option"

definition no_options :: options where
  "no_options = \<lparr>top_k = JSUndefined, min_relevance_score = JSUndefined, document_ids = None\<rparr>"

text \<open>\<open>if (v) params.append(name, v)\<close>\<close>

definition append_if_truthy ::
  "string \<Rightarrow> jsval \<Rightarrow> (string \<times> jsval) list \<Rightarrow> (string \<times> jsval) list" where
  "append_if_truthy name v params = (if truthy v then params @ [(name, v)] else params)"

text \<open>\<open>ids.forEach(id => params.append('document_ids', id))\<close>\<close>

fun append_each ::
  "string \<Rightarrow> jsval list \<Rightarrow> (string \<times> jsval) list \<Rightarrow> (string \<times> jsval) list" where
  "append_each name [] params = params"
| "append_each name (v # vs) params = append_each name vs (params @ [(name, v)])"

text \<open>The parameters \<open>questionsAPI.askSingle\<close> builds (lines 64 to 68).\<close>

definition askSingle_params :: "jsstring \<Rightarrow> options \<Rightarrow> (string \<times> jsval) list" where
  "askSingle_params question options =
     (let params = [(''question'', JSString question)];
          params = append_if_truthy ''top_k'' (top_k options) params
      in case document_ids options of
           None \<Rightarrow> params
         | Some ids \<Rightarrow> append_each ''document_ids'' ids params)"

definition askSingle_request :: "jsstring \<Rightarrow> options \<Rightarrow> request" where
  "askSingle_request question options =
     \<lparr>request_method = POST, url = js ''/questions/single?'',
      search_params = askSingle_params question options,
      content_type = ''application/json'', body = NoBody\<rparr>"

text \<open>
  \<open>askSingle\<close>: the requests it issues and what it returns. \<open>post\<close> is the server seen
  through axios: the response body, or the error of a rejected promise, which \<open>askSingle\<close>
  lets through.
\<close>

definition askSingle ::
  "(request \<Rightarrow> api_error + 'a) \<Rightarrow> jsstring \<Rightarrow> options \<Rightarrow> request list \<times> (api_error + 'a)" where
  "askSingle post question options =
     (let req = askSingle_request question options in ([req], post req))"




text \<open>\<open>documentAPI.upload\<close> and \<open>documentAPI.delete\<close>.\<close>

definition upload_request :: "upload_file \<Rightarrow> request" where
  "upload_request f =
     \<lparr>request_method = POST, url = js ''/documents/upload'', search_params = [],
      content_type = ''multipart/form-data'', body = FormData [(''file'', f)]\<rparr>"

definition documentAPI_upload ::
  "(request \<Rightarrow> api_error + 'a) \<Rightarrow> upload_file \<Rightarrow> request list \<times> (api_error + 'a)" where
  "documentAPI_upload post f = (let req = upload_request f in ([req], post req))"

definition delete_request :: "jsstring \<Rightarrow> request" where
  "delete_request documentId =
     \<lparr>request_method = DELETE, url = js ''/documents/'' @ documentId, search_params = [],
      content_type = ''application/json'', body = NoBody\<rparr>"

definition documentAPI_delete ::
  "(request \<Rightarrow> api_error + 'a) \<Rightarrow> jsstring \<Rightarrow> request list \<times> (api_error + 'a)" where
  "documentAPI_delete del documentId =
     (let req = delete_request documentId in ([req], del req))"


section \<open>The question form (components/QuestionUpload.jsx)\<close>

text \<open>The answer object of the server, as the front end reads it.\<close>

record source =
  chunk_id :: jsstring
  exact_quote :: jsstring
  source_context :: jsstring
  page_number :: "nat option"
  match_type :: jsstring
  source_confidence_score :: real

record answer_result =
  question_id :: jsstring
  question_text :: jsstring
  question_type :: jsstring
  answer :: jsstring
  selected_option_id :: "jsstring option"
  reasoning_steps :: "jsstring list"
  sources :: "source list"
  confidence_score :: real
  verification_status :: jsstring
  processing_time :: real
  model_used :: jsstring

record question_batch =
  batch_id :: jsstring
  total_questions :: nat
  completed :: nat
  failed :: nat
  results :: "answer_result list"
  total_processing_time :: real
  timestamp :: jsstring

text \<open>The component state (the three \<open>useState\<close> cells).\<close>

record question_upload =
  question :: jsstring
  loading :: bool
  activeTab :: string

text \<open>
  What a handler does to the outside, in order. \<open>Callback\<close> is a call of the
  callback property of the component (\<open>onQuestionsProcessed\<close> here), with its argument.
\<close>

datatype 'cb effect =
    PreventDefault
  | Confirm jsstring
  | ToastError jsstring
  | ToastSuccess jsstring "jsstring option"
  | Request request
  | Callback 'cb

text \<open>
  The clock the handler reads: \<open>Date.now().toString()\<close> and
  \<open>new Date().toISOString()\<close>.
\<close>

record clock =
  date_now :: jsstring
  iso_now :: jsstring

definition please_write_a_question :: jsstring where
  "please_write_a_question = js ''L'' @ [0xFC] @ js ''tfen bir soru yaz'' @ [0x131] @ js ''n!''"

definition question_answered :: jsstring where
  "question_answered = [0x2705] @ js '' Soru cevapland'' @ [0x131] @ js ''!''"

definition robot_icon :: jsstring where
  "robot_icon = [0xD83E, 0xDD16]"

definition error_occurred :: jsstring where
  "error_occurred = [0x274C] @ js '' Hata olu'' @ [0x15F] @ js ''tu: ''"

text \<open>
  \<open>handleSubmit\<close> (lines 13 to 42). \<open>post\<close> is the server, \<open>has_callback\<close> says whether
  the \<open>onQuestionsProcessed\<close> property was given. The result is the state after the
  handler has finished and the trace of its effects.
\<close>

definition handleSubmit ::
  "(request \<Rightarrow> api_error + answer_result) \<Rightarrow> clock \<Rightarrow> bool \<Rightarrow> question_upload
     \<Rightarrow> question_upload \<times> question_batch effect list" where
  "handleSubmit post clk has_callback s =
     (if trim (question s) = [] then
        (s, [PreventDefault, ToastError please_write_a_question])
      else
        (case askSingle post (question s) no_options of
           (reqs, Inr result) \<Rightarrow>
             (s\<lparr>question := [], loading := False\<rparr>,
              [PreventDefault] @ map Request reqs
                @ [ToastSuccess question_answered (Some robot_icon)]
                @ (if has_callback then
                     [Callback
                        \<lparr>batch_id = date_now clk,
                         total_questions = 1,
                         completed = 1,
                         failed = 0,
                         results = [result],
                         total_processing_time = processing_time result,
                         timestamp = iso_now clk\<rparr>]
                   else []))
         | (reqs, Inl err) \<Rightarrow>
             (s\<lparr>loading := False\<rparr>,
              [PreventDefault] @ map Request reqs
                @ [ToastError (error_occurred @ detail_or err (message err))])))"


section \<open>The document list (components/DocumentUpload.jsx)\<close>

text \<open>The body of a successful upload response, as the component reads it.\<close>

record upload_response =
  response_document_id :: jsstring
  total_chunks :: "nat option"

text \<open>
  An entry of \<open>uploadedFiles\<close>. A failed upload has no \<open>document_id\<close>, no \<open>data\<close> and
  no \<open>chunk_count\<close>, a successful one no \<open>error\<close>.
\<close>

record uploaded_entry =
  document_id :: "jsstring option"
  name :: jsstring
  status :: string
  data :: "upload_response option"
  chunk_count :: "nat option"
  error :: "jsstring option"

record document_upload =
  uploading :: bool
  uploadedFiles :: "uploaded_entry list"
  dragActive :: bool

text \<open>
  A rejection as react-dropzone hands it to \<open>onDrop\<close>: the file and the codes of its
  errors, in the order of \<open>file.errors\<close>.
\<close>

record file_rejection =
  rejected_file :: upload_file
  errors :: "string list"

datatype js_exception = TypeError

text \<open>
  The effects of this component: \<open>Callback\<close> is a call of \<open>onUploadComplete\<close>, with the
  results of the uploads or with no argument.
\<close>

type_synonym upload_effect = "uploaded_entry list option effect"

definition file_too_large :: "jsstring \<Rightarrow> jsstring" where
  "file_too_large file_name' =
     file_name' @ js '': Dosya '' @ [0xE7] @ js ''ok b'' @ [0xFC] @ js ''y'' @ [0xFC]
       @ js ''k (max 10MB)''"

definition unsupported_format :: "jsstring \<Rightarrow> jsstring" where
  "unsupported_format file_name' = file_name' @ js '': Desteklenmeyen format''"

definition file_uploaded :: "jsstring \<Rightarrow> jsstring" where
  "file_uploaded file_name' =
     [0x2705] @ js '' '' @ file_name' @ js '' y'' @ [0xFC] @ js ''klendi!''"

definition page_icon :: jsstring where
  "page_icon = [0xD83D, 0xDCC4]"

definition file_not_uploaded :: "jsstring \<Rightarrow> jsstring" where
  "file_not_uploaded file_name' =
     [0x274C] @ js '' '' @ file_name' @ js '' y'' @ [0xFC] @ js ''klenemedi''"

definition upload_failure :: jsstring where
  "upload_failure = js ''Y'' @ [0xFC] @ js ''kleme hatas'' @ [0x131]"

definition confirm_delete :: "jsstring \<Rightarrow> jsstring" where
  "confirm_delete fileName =
     [0x22] @ fileName @ [0x22] @ js '' belgesini silmek istedi'' @ [0x11F]
       @ js ''inize emin misiniz?''"

definition document_deleted :: jsstring where
  "document_deleted = [0xD83D, 0xDDD1, 0xFE0F] @ js '' Belge silindi''"

definition delete_failed :: jsstring where
  "delete_failed =
     [0x274C] @ js '' Silme ba'' @ [0x15F] @ js ''ar'' @ [0x131] @ js ''s'' @ [0x131] @ js ''z''"

text \<open>
  The first loop of \<open>onDrop\<close> (lines 34 to 41): one toast for a rejection whose first
  error is \<open>file-too-large\<close> or \<open>file-invalid-type\<close>, none for another code. Reading
  \<open>.code\<close> of the first error of an empty \<open>errors\<close> array throws, which ends the
  handler.
\<close>

fun report_rejected ::
  "file_rejection list \<Rightarrow> upload_effect list \<times> js_exception option" where
  "report_rejected [] = ([], None)"
| "report_rejected (r # rs) =
     (case errors r of
        [] \<Rightarrow> ([], Some TypeError)
      | code # _ \<Rightarrow>
          (let toasts =
                 (if code = ''file-too-large'' then
                    [ToastError (file_too_large (file_name (rejected_file r)))]
                  else if code = ''file-invalid-type'' then
                    [ToastError (unsupported_format (file_name (rejected_file r)))]
                  else []);
               (rest, thrown) = report_rejected rs
           in (toasts @ rest, thrown)))"

text \<open>
  The second loop (lines 48 to 69): the accepted files are uploaded one after the other;
  each gives an entry of \<open>results\<close> and a toast.
\<close>

fun upload_each ::
  "(request \<Rightarrow> api_error + upload_response) \<Rightarrow> upload_file list
     \<Rightarrow> uploaded_entry list \<times> upload_effect list" where
  "upload_each post [] = ([], [])"
| "upload_each post (f # fs) =
     (let (reqs, response) = documentAPI_upload post f;
          (entry, toast) =
            (case response of
               Inr result \<Rightarrow>
                 (\<lparr>document_id = Some (response_document_id result),
                   name = file_name f,
                   status = ''success'',
                   data = Some result,
                   chunk_count = Some (case total_chunks result of None \<Rightarrow> 0 | Some n \<Rightarrow> n),
                   error = None\<rparr>,
                  ToastSuccess (file_uploaded (file_name f)) (Some page_icon))
             | Inl err \<Rightarrow>
                 (\<lparr>document_id = None,
                   name = file_name f,
                   status = ''error'',
                   data = None,
                   chunk_count = None,
                   error = Some (detail_or err upload_failure)\<rparr>,
                  ToastError (file_not_uploaded (file_name f))));
          (entries, effects) = upload_each post fs
      in (entry # entries, map Request reqs @ [toast] @ effects))"

text \<open>
  \<open>onDrop\<close> (lines 32 to 77). The new entries go in front of the list as it is when the
  update is applied (\<open>prev => [...results, ...prev]\<close>); the callback gets the results.
\<close>

definition onDrop ::
  "(request \<Rightarrow> api_error + upload_response) \<Rightarrow> bool \<Rightarrow> document_upload
     \<Rightarrow> upload_file list \<Rightarrow> file_rejection list
     \<Rightarrow> document_upload \<times> upload_effect list \<times> js_exception option" where
  "onDrop post has_callback s acceptedFiles rejectedFiles =
     (case report_rejected rejectedFiles of
        (toasts, Some e) \<Rightarrow> (s, toasts, Some e)
      | (toasts, None) \<Rightarrow>
          if acceptedFiles = [] then (s, toasts, None)
          else
            (let (results', effects) = upload_each post acceptedFiles
             in (s\<lparr>uploadedFiles := results' @ uploadedFiles s, uploading := False\<rparr>,
                 toasts @ effects @ (if has_callback then [Callback (Some results')] else []),
                 None)))"

text \<open>
  \<open>handleDelete\<close> (lines 79 to 92). \<open>confirm\<close> is the user's answer to the dialog,
  \<open>del\<close> the server. The filter runs on the list as it is when the update is applied
  (\<open>prev => prev.filter(...)\<close>); \<open>!==\<close> compares a missing \<open>document_id\<close> as different
  from every string.
\<close>

definition handleDelete ::
  "(jsstring \<Rightarrow> bool) \<Rightarrow> (request \<Rightarrow> api_error + 'a) \<Rightarrow> bool \<Rightarrow> document_upload
     \<Rightarrow> jsstring \<Rightarrow> jsstring
     \<Rightarrow> document_upload \<times> upload_effect list" where
  "handleDelete confirm del has_callback s documentId fileName =
     (if \<not> confirm (confirm_delete fileName) then (s, [Confirm (confirm_delete fileName)])
      else
        (case documentAPI_delete del documentId of
           (reqs, Inr _) \<Rightarrow>
             (s\<lparr>uploadedFiles := filter (\<lambda>f. document_id f \<noteq> Some documentId) (uploadedFiles s)\<rparr>,
              [Confirm (confirm_delete fileName)] @ map Request reqs
                @ [ToastSuccess document_deleted None]
                @ (if has_callback then [Callback None] else []))
         | (reqs, Inl _) \<Rightarrow>
             (s, [Confirm (confirm_delete fileName)] @ map Request reqs
                   @ [ToastError delete_failed])))"

subsection \<open>The drop zone\<close>

text \<open>
  The options the component passes to \<open>useDropzone\<close> (lines 94 to 106).
\<close>

record dropzone_options =
  accept :: "(string \<times> string list) list"
  maxSize :: nat
  multiple :: bool
  disabled :: bool

definition useDropzone_options :: "document_upload \<Rightarrow> dropzone_options" where
  "useDropzone_options s =
     \<lparr>accept =
        [(''application/pdf'', [''.pdf'']),
         (''application/vnd.openxmlformats-officedocument.wordprocessingml.document'', [''.docx'']),
         (''text/plain'', [''.txt''])],
      maxSize = 10 * 1024 * 1024,
      multiple = True,
      disabled = uploading s\<rparr>"

text \<open>
  react-dropzone is a dependency of the front end, not part of the repository. What
  follows is its documented treatment of a drop: a disabled drop zone ignores it; otherwise
  each file is checked against \<open>accept\<close> and against \<open>maxSize\<close>, its errors are listed in
  that order, a file without error is accepted and every other file is rejected with its
  errors; without \<open>multiple\<close>, more than one accepted file rejects them all. The match of
  a file against the \<open>accept\<close> table (by MIME type or file extension) is the parameter
  \<open>matches\<close>.
\<close>

definition dropzone_errors ::
  "((string \<times> string list) list \<Rightarrow> upload_file \<Rightarrow> bool) \<Rightarrow> dropzone_options \<Rightarrow> upload_file
     \<Rightarrow> string list" where
  "dropzone_errors matches opts f =
     (if matches (accept opts) f then [] else [''file-invalid-type''])
       @ (if maxSize opts < file_size f then [''file-too-large''] else [])"

definition dropzone_drop ::
  "((string \<times> string list) list \<Rightarrow> upload_file \<Rightarrow> bool) \<Rightarrow> dropzone_options
     \<Rightarrow> upload_file list \<Rightarrow> (upload_file list \<times> file_rejection list) option" where
  "dropzone_drop matches opts files =
     (if disabled opts then None
      else
        (let acceptedFiles = filter (\<lambda>f. dropzone_errors matches opts f = []) files;
             fileRejections =
               map (\<lambda>f. \<lparr>rejected_file = f, errors = dropzone_errors matches opts f\<rparr>)
                 (filter (\<lambda>f. dropzone_errors matches opts f \<noteq> []) files)
         in if \<not> multiple opts \<and> 1 < length acceptedFiles then
              Some ([], fileRejections
                      @ map (\<lambda>f. \<lparr>rejected_file = f, errors = [''too-many-files'']\<rparr>) acceptedFiles)
            else Some (acceptedFiles, fileRejections)))"

text \<open>A drop of files on the component: the drop zone, then \<open>onDrop\<close>.\<close>

definition drop_files ::
  "((string \<times> string list) list \<Rightarrow> upload_file \<Rightarrow> bool)
     \<Rightarrow> (request \<Rightarrow> api_error + upload_response) \<Rightarrow> bool \<Rightarrow> document_upload
     \<Rightarrow> upload_file list
     \<Rightarrow> document_upload \<times> upload_effect list \<times> js_exception option" where
  "drop_files matches post has_callback s files =
     (case dropzone_drop matches (useDropzone_options s) files of
        None \<Rightarrow> (s, [], None)
      | Some (acceptedFiles, rejectedFiles) \<Rightarrow>
          onDrop post has_callback s acceptedFiles rejectedFiles)"


section \<open>The result badges (components/ResultsView.jsx)\<close>

text \<open>
  \<open>configs[key]\<close> on an object literal: an own property of the literal, else a property
  inherited from \<open>Object.prototype\<close> (a function, or for \<open>__proto__\<close> the prototype
  object itself), else \<open>undefined\<close>.
\<close>

definition object_prototype_properties :: "string list" where
  "object_prototype_properties =
     [''constructor'', ''hasOwnProperty'', ''isPrototypeOf'', ''propertyIsEnumerable'',
      ''toLocaleString'', ''toString'', ''valueOf'', ''__proto__'',
      ''__defineGetter__'', ''__defineSetter__'', ''__lookupGetter__'', ''__lookupSetter__'']"

datatype 'a property = Own 'a | Inherited string | Absent

fun get_own :: "(string \<times> 'a) list \<Rightarrow> jsstring \<Rightarrow> 'a option" where
  "get_own [] key = None"
| "get_own ((k, v) # kvs) key = (if js k = key then Some v else get_own kvs key)"

definition get_property :: "(string \<times> 'a) list \<Rightarrow> jsstring \<Rightarrow> 'a property" where
  "get_property obj key =
     (case get_own obj key of
        Some v \<Rightarrow> Own v
      | None \<Rightarrow>
          (case filter (\<lambda>k. js k = key) object_prototype_properties of
             [] \<Rightarrow> Absent
           | k # _ \<Rightarrow> Inherited k))"

text \<open>
  \<open>configs[key] || fallback\<close>: the own and the inherited values are objects or
  functions, all truthy; only \<open>undefined\<close> gives the fallback.
\<close>

definition property_or :: "'a property \<Rightarrow> 'a \<Rightarrow> 'a property" where
  "property_or p fallback = (case p of Absent \<Rightarrow> Own fallback | _ \<Rightarrow> p)"

datatype icon = ShieldCheck | ShieldAlert | ShieldQuestion

record verification_config =
  badge_icon :: icon
  badge_text :: jsstring
  bgColor :: string
  textColor :: string
  borderColor :: string

definition verified_config :: verification_config where
  "verified_config =
     \<lparr>badge_icon = ShieldCheck,
      badge_text = js ''Do'' @ [0x11F] @ js ''rulanm'' @ [0x131, 0x15F],
      bgColor = ''bg-green-100'', textColor = ''text-green-700'',
      borderColor = ''border-green-300''\<rparr>"

definition partial_config :: verification_config where
  "partial_config =
     \<lparr>badge_icon = ShieldAlert,
      badge_text = js ''K'' @ [0x131] @ js ''smen Do'' @ [0x11F] @ js ''rulanm'' @ [0x131, 0x15F],
      bgColor = ''bg-amber-100'', textColor = ''text-amber-700'',
      borderColor = ''border-amber-300''\<rparr>"

definition unverified_config :: verification_config where
  "unverified_config =
     \<lparr>badge_icon = ShieldQuestion,
      badge_text = js ''Do'' @ [0x11F] @ js ''rulanmam'' @ [0x131, 0x15F],
      bgColor = ''bg-slate-100'', textColor = ''text-slate-700'',
      borderColor = ''border-slate-300''\<rparr>"

definition verification_configs :: "(string \<times> verification_config) list" where
  "verification_configs =
     [(''verified'', verified_config), (''partial'', partial_config),
      (''unverified'', unverified_config)]"

text \<open>
  What \<open>VerificationBadge\<close> renders: the outer \<open>div\<close> with its class, the icon component
  with its class, and the label with its class.
\<close>

record verification_badge =
  div_class :: string
  shown_icon :: icon
  icon_class :: string
  label_class :: string
  label :: jsstring

text \<open>
  React refuses to render an element whose type is \<open>undefined\<close>: the render throws.
\<close>

datatype render_error = InvalidElementType

text \<open>
  \<open>VerificationBadge\<close> (lines 18 to 54). A value inherited from \<open>Object.prototype\<close> has
  no \<open>icon\<close> property, so \<open>Icon\<close> is \<open>undefined\<close>.
\<close>

definition VerificationBadge :: "jsstring \<Rightarrow> render_error + verification_badge" where
  "VerificationBadge status' =
     (case property_or (get_property verification_configs status') unverified_config of
        Own config \<Rightarrow>
          Inr \<lparr>div_class =
                 ''flex items-center space-x-1.5 px-3 py-1.5 rounded-lg border ''
                   @ bgColor config @ '' '' @ borderColor config,
               shown_icon = badge_icon config,
               icon_class = ''w-4 h-4 '' @ textColor config,
               label_class = ''text-xs font-semibold '' @ textColor config,
               label = badge_text config\<rparr>
      | _ \<Rightarrow> Inl InvalidElementType)"

record match_config =
  match_text :: jsstring
  match_bgColor :: string
  match_textColor :: string

definition exact_config :: match_config where
  "exact_config =
     \<lparr>match_text = js ''Tam E'' @ [0x15F] @ js ''le'' @ [0x15F] @ js ''me'',
      match_bgColor = ''bg-green-100'', match_textColor = ''text-green-700''\<rparr>"

definition paraphrase_config :: match_config where
  "paraphrase_config =
     \<lparr>match_text = js ''Parafraz'',
      match_bgColor = ''bg-blue-100'', match_textColor = ''text-blue-700''\<rparr>"

definition inference_config :: match_config where
  "inference_config =
     \<lparr>match_text = [0xC7, 0x131] @ js ''kar'' @ [0x131] @ js ''m'',
      match_bgColor = ''bg-purple-100'', match_textColor = ''text-purple-700''\<rparr>"

definition match_configs :: "(string \<times> match_config) list" where
  "match_configs =
     [(''exact'', exact_config), (''paraphrase'', paraphrase_config),
      (''inference'', inference_config)]"

text \<open>
  What \<open>MatchTypeBadge\<close> renders: a \<open>span\<close> with its class and its text; an
  \<open>undefined\<close> child renders nothing.
\<close>

record match_badge =
  span_class :: string
  span_text :: "jsstring option"

text \<open>
  \<open>MatchTypeBadge\<close> (lines 56 to 82). In a template literal an \<open>undefined\<close> property
  reads \<open>undefined\<close>.
\<close>

definition MatchTypeBadge :: "jsstring \<Rightarrow> match_badge" where
  "MatchTypeBadge matchType =
     (case property_or (get_property match_configs matchType) inference_config of
        Own config \<Rightarrow>
          \<lparr>span_class =
             ''px-2 py-1 rounded text-xs font-medium ''
               @ match_bgColor config @ '' '' @ match_textColor config,
           span_text = Some (match_text config)\<rparr>
      | _ \<Rightarrow>
          \<lparr>span_class = ''px-2 py-1 rounded text-xs font-medium undefined undefined'',
           span_text = None\<rparr>)"


section \<open>The retrieval core of the back end\<close>

text \<open>
  The Python back end (\<open>backend/app/services\<close>) is not among the sources; its chunker,
  its embedding index and its retriever are modelled from the specification.
\<close>

datatype core_error = ConfigError | RetrievalError

subsection \<open>Chunker\<close>

record 'c chunk_draft =
  draft_text :: "'c list"
  char_offset_range :: "nat \<times> nat"
  draft_page_number :: "nat option"

text \<open>
  Modelled from the spec: the chunker's page tagging is missing from the sources. Section
  4.1: each chunk records the page containing its starting offset, \<open>page_boundaries\<close>
  being the sorted offsets where pages begin; the page number is optional in the data
  model and absent when no boundaries are given.
\<close>

definition page_of :: "nat list \<Rightarrow> nat \<Rightarrow> nat option" where
  "page_of page_boundaries offset =
     (if page_boundaries = [] then None
      else Some (length (filter (\<lambda>b. b \<le> offset) page_boundaries)))"

text \<open>
  Modelled from the spec: where a chunk ends; the chunker is missing from the sources.
  Sections 3 and 4.1: no chunk is longer than \<open>chunk_size\<close>, and the last one may be
  shorter. The specification asks that a cut falls on a sentence or word boundary where
  one fits, and fixes no rule for finding it: \<open>cut_at text start limit\<close> is that rule, a
  parameter, proposing where the chunk starting at \<open>start\<close> ends. The proposal is taken
  when it leaves the chunk longer than the overlap and no longer than \<open>chunk_size\<close>;
  otherwise the chunk is cut at the limit.
\<close>

definition chunk_end ::
  "('c list \<Rightarrow> nat \<Rightarrow> nat \<Rightarrow> nat) \<Rightarrow> 'c list \<Rightarrow> nat \<Rightarrow> nat \<Rightarrow> nat \<Rightarrow> nat" where
  "chunk_end cut_at text chunk_size chunk_overlap start =
     (let limit = min (start + chunk_size) (length text);
          proposed = cut_at text start limit
      in if start + chunk_overlap < proposed \<and> proposed \<le> limit then proposed else limit)"

text \<open>
  Modelled from the spec: the chunker's splitting loop, missing from the sources. Sections
  3 and 4.1: chunks come in document order, each with its offsets and its page;
  consecutive chunks overlap by exactly \<open>chunk_overlap\<close> characters, so a chunk starts
  \<open>chunk_overlap\<close> characters before the end of the one before it. The loop ends with the
  chunk that reaches the end of the text.
\<close>

function chunk_from ::
  "('c list \<Rightarrow> nat \<Rightarrow> nat \<Rightarrow> nat) \<Rightarrow> 'c list \<Rightarrow> nat list \<Rightarrow> nat \<Rightarrow> nat \<Rightarrow> nat
     \<Rightarrow> 'c chunk_draft list" where
  "chunk_from cut_at text page_boundaries chunk_size chunk_overlap start =
     (let stop = chunk_end cut_at text chunk_size chunk_overlap start;
          draft = \<lparr>draft_text = take (stop - start) (drop start text),
                   char_offset_range = (start, stop),
                   draft_page_number = page_of page_boundaries start\<rparr>
      in if chunk_size \<le> chunk_overlap \<or> length text \<le> stop then [draft]
         else draft # chunk_from cut_at text page_boundaries chunk_size chunk_overlap
                        (stop - chunk_overlap))"
  by pat_completeness auto
termination
  by (relation "measure (\<lambda>(cut_at, text, page_boundaries, chunk_size, chunk_overlap, start).
                  length text - start)")
     (auto simp: chunk_end_def Let_def min_def split: if_splits)

declare chunk_from.simps [simp del]

text \<open>
  Modelled from the spec: the chunker's entry point is missing from the sources. Section
  4.1: \<open>chunk(text, page_boundaries, chunk_size, chunk_overlap)\<close> fails with \<open>ConfigError\<close>
  unless \<open>chunk_overlap < chunk_size\<close>, and the empty text yields zero chunks.
\<close>

definition chunk ::
  "('c list \<Rightarrow> nat \<Rightarrow> nat \<Rightarrow> nat) \<Rightarrow> 'c list \<Rightarrow> nat list \<Rightarrow> nat \<Rightarrow> nat
     \<Rightarrow> core_error + 'c chunk_draft list" where
  "chunk cut_at text page_boundaries chunk_size chunk_overlap =
     (if chunk_size \<le> chunk_overlap then Inl ConfigError
      else if text = [] then Inr []
      else Inr (chunk_from cut_at text page_boundaries chunk_size chunk_overlap 0))"

text \<open>
  Modelled from the spec: the cut rule of the scenario of section 8, which never moves a
  cut (windows of exactly \<open>chunk_size\<close> characters).
\<close>

definition fixed_cut :: "'c list \<Rightarrow> nat \<Rightarrow> nat \<Rightarrow> nat" where
  "fixed_cut text start limit = limit"

text \<open>
  Modelled from the spec: section 8 reads the chunks back by concatenating their texts
  while removing the declared overlap, that is the first \<open>chunk_overlap\<close> characters of
  every chunk but the first.
\<close>

fun reassemble :: "nat \<Rightarrow> 'c list list \<Rightarrow> 'c list" where
  "reassemble chunk_overlap [] = []"
| "reassemble chunk_overlap (t # ts) = t @ concat (map (drop chunk_overlap) ts)"

subsection \<open>Embedding index\<close>

type_synonym embedding = "real list"

record metadata =
  meta_document_id :: string
  meta_text :: string
  meta_page_number :: "nat option"

record index_entry =
  entry_chunk_id :: string
  entry_embedding :: embedding
  entry_metadata :: metadata

text \<open>The index: its entries in insertion order.\<close>

type_synonym embedding_index = "index_entry list"

text \<open>
  Modelled from the spec: the inner product of two embeddings, for the score of section
  4.2; the index adapter (\<open>vector_store.py\<close>) is missing from the sources.
\<close>

definition dot :: "embedding \<Rightarrow> embedding \<Rightarrow> real" where
  "dot a b = sum_list (map2 (*) a b)"

text \<open>
  Modelled from the spec: the score of section 4.2, the adapter being missing from the
  sources. It is the cosine similarity of the two embeddings, taken over the reals; a zero
  vector scores 0.
\<close>

definition cosine :: "embedding \<Rightarrow> embedding \<Rightarrow> real" where
  "cosine a b =
     (let n = sqrt (dot a a) * sqrt (dot b b)
      in if n = 0 then 0 else dot a b / n)"

text \<open>
  Modelled from the spec: \<open>upsert(chunk_id, embedding, metadata)\<close> of section 4.2, the
  adapter being missing from the sources. A chunk already stored is replaced where it
  stands, a new one goes to the end.
\<close>

definition upsert :: "string \<Rightarrow> embedding \<Rightarrow> metadata \<Rightarrow> embedding_index \<Rightarrow> embedding_index" where
  "upsert cid emb md idx =
     (let new = \<lparr>entry_chunk_id = cid, entry_embedding = emb, entry_metadata = md\<rparr>
      in if cid \<in> set (map entry_chunk_id idx) then
           map (\<lambda>e. if entry_chunk_id e = cid then new else e) idx
         else idx @ [new])"

text \<open>
  Modelled from the spec: \<open>delete(document_id)\<close> of section 4.2, the adapter being
  missing from the sources. It removes all chunks of the document.
\<close>

definition delete :: "string \<Rightarrow> embedding_index \<Rightarrow> embedding_index" where
  "delete doc idx = filter (\<lambda>e. meta_document_id (entry_metadata e) \<noteq> doc) idx"

text \<open>
  Modelled from the spec: the filter of a query (section 4.2), the adapter being missing
  from the sources. It restricts the search to a set of documents; its absence searches
  the whole corpus.
\<close>

definition in_filter :: "string list option \<Rightarrow> index_entry \<Rightarrow> bool" where
  "in_filter flt e =
     (case flt of
        None \<Rightarrow> True
      | Some docs \<Rightarrow> meta_document_id (entry_metadata e) \<in> set docs)"

text \<open>
  Modelled from the spec: \<open>query(embedding, k, filter?)\<close> of section 4.2, the adapter
  being missing from the sources. The ranking is descending by score, ties in insertion
  order (the sort is stable), cut to \<open>k\<close> entries.
\<close>

definition query ::
  "embedding_index \<Rightarrow> embedding \<Rightarrow> nat \<Rightarrow> string list option \<Rightarrow> (string \<times> real) list" where
  "query idx emb k flt =
     take k (sort_key (\<lambda>(cid, score). - score)
               (map (\<lambda>e. (entry_chunk_id e, cosine emb (entry_embedding e)))
                  (filter (in_filter flt) idx)))"

text \<open>
  The operations that change the index, a run of them from left to right, and whether an
  operation upserts a given chunk.
\<close>

datatype index_op = Upsert string embedding metadata | Delete string

fun apply_op :: "embedding_index \<Rightarrow> index_op \<Rightarrow> embedding_index" where
  "apply_op idx (Upsert cid emb md) = upsert cid emb md idx"
| "apply_op idx (Delete doc) = delete doc idx"

definition run_ops :: "embedding_index \<Rightarrow> index_op list \<Rightarrow> embedding_index" where
  "run_ops idx ops = foldl apply_op idx ops"

fun upserts_chunk :: "string \<Rightarrow> index_op \<Rightarrow> bool" where
  "upserts_chunk cid (Upsert cid' emb md) = (cid' = cid)"
| "upserts_chunk cid (Delete doc) = False"

text \<open>Every entry of chunk \<open>cid\<close> in the index belongs to document \<open>doc\<close>.\<close>

definition owned_by :: "string \<Rightarrow> string \<Rightarrow> embedding_index \<Rightarrow> bool" where
  "owned_by cid doc idx \<longleftrightarrow>
     (\<forall>e\<in>set idx. entry_chunk_id e = cid \<longrightarrow> meta_document_id (entry_metadata e) = doc)"

subsection \<open>Retriever\<close>

text \<open>
  Modelled from the spec: the retriever is missing from the sources. Section 4.3:
  \<open>retrieve(question_text, top_k, min_relevance_score, document_ids?)\<close> embeds the
  question once (\<open>embedder\<close> is the embedding capability \<open>embed\<close>), queries the index, discards the
  entries with a score below \<open>min_relevance_score\<close> and returns the chunks left, each with
  its score, in rank order. Section 7: an unavailable index (\<open>None\<close>) is a
  \<open>RetrievalError\<close>.
\<close>

definition retrieve ::
  "(string \<Rightarrow> embedding) \<Rightarrow> embedding_index option \<Rightarrow> string \<Rightarrow> nat \<Rightarrow> real
     \<Rightarrow> string list option \<Rightarrow> core_error + (index_entry \<times> real) list" where
  "retrieve embedder available qtext k min_score docs =
     (case available of
        None \<Rightarrow> Inl RetrievalError
      | Some idx \<Rightarrow>
          (let q = embedder qtext;
               ranked = query idx q k docs;
               relevant = filter (\<lambda>(cid, score). min_score \<le> score) ranked
           in Inr (List.map_filter
                     (\<lambda>(cid, score).
                        map_option (\<lambda>e. (e, score)) (find (\<lambda>e. entry_chunk_id e = cid) idx))
                     relevant)))"


section \<open>Example inputs\<close>

text \<open>Concrete values on which the properties below are instantiated.\<close>

definition example_answer :: answer_result where
  "example_answer =
     \<lparr>question_id = js ''q1'', question_text = js ''Ka'' @ [0xE7] @ js '' sayfa?'',
      question_type = js ''short_answer'', answer = js ''120'',
      selected_option_id = None, reasoning_steps = [], sources = [],
      confidence_score = 0.3, verification_status = js ''unverified'',
      processing_time = 2.34, model_used = js ''gemini-2.0-flash-exp''\<rparr>"

definition answering_server :: "request \<Rightarrow> api_error + answer_result" where
  "answering_server req = Inr example_answer"

definition example_clock :: clock where
  "example_clock =
     \<lparr>date_now = js ''1730505600000'', iso_now = js ''2024-11-02T00:00:00.000Z''\<rparr>"

definition example_form :: question_upload where
  "example_form =
     \<lparr>question = js ''Ka'' @ [0xE7] @ js '' sayfa?'', loading = False, activeTab = ''manual''\<rparr>"

definition blank_form :: question_upload where
  "blank_form = \<lparr>question = [0x20, 0x0A, 0x3000], loading = False, activeTab = ''manual''\<rparr>"

definition report_entry :: uploaded_entry where
  "report_entry =
     \<lparr>document_id = Some (js ''doc-1''), name = js ''report.pdf'', status = ''success'',
      data = None, chunk_count = Some 4, error = None\<rparr>"

definition broken_entry :: uploaded_entry where
  "broken_entry =
     \<lparr>document_id = None, name = js ''broken.docx'', status = ''error'',
      data = None, chunk_count = None, error = Some upload_failure\<rparr>"

definition notes_entry :: uploaded_entry where
  "notes_entry =
     \<lparr>document_id = Some (js ''doc-2''), name = js ''notes.txt'', status = ''success'',
      data = None, chunk_count = Some 1, error = None\<rparr>"

definition example_list :: document_upload where
  "example_list =
     \<lparr>uploading = False,
      uploadedFiles = [report_entry, broken_entry, notes_entry, report_entry],
      dragActive = False\<rparr>"

definition always_confirm :: "jsstring \<Rightarrow> bool" where
  "always_confirm question' = True"

definition deleting_server :: "request \<Rightarrow> api_error + unit" where
  "deleting_server req = Inr ()"




text \<open>A matcher for the drop zone that goes by the MIME type alone.\<close>

definition by_mime_type :: "(string \<times> string list) list \<Rightarrow> upload_file \<Rightarrow> bool" where
  "by_mime_type table f \<longleftrightarrow> file_type f \<in> set (map (\<lambda>(mime, extensions). js mime) table)"

definition upload_server :: "request \<Rightarrow> api_error + upload_response" where
  "upload_server req = Inr \<lparr>response_document_id = js ''doc-3'', total_chunks = Some 4\<rparr>"

definition big_archive :: upload_file where
  "big_archive =
     \<lparr>file_name = js ''backup.zip'', file_size = 20971520, file_type = js ''application/zip''\<rparr>"

definition big_report :: upload_file where
  "big_report =
     \<lparr>file_name = js ''report.pdf'', file_size = 10485761, file_type = js ''application/pdf''\<rparr>"

definition idle :: document_upload where
  "idle = \<lparr>uploading = False, uploadedFiles = [], dragActive = False\<rparr>"

definition example_metadata :: "string \<Rightarrow> metadata" where
  "example_metadata doc =
     \<lparr>meta_document_id = doc, meta_text = ''...'', meta_page_number = Some 1\<rparr>"

definition example_embedder :: "string \<Rightarrow> embedding" where
  "example_embedder qtext = [1, 0]"

definition example_index :: embedding_index where
  "example_index =
     [\<lparr>entry_chunk_id = ''c1'', entry_embedding = [0, 1],
       entry_metadata = example_metadata ''d1''\<rparr>,
      \<lparr>entry_chunk_id = ''c2'', entry_embedding = [3 / 5, 4 / 5],
       entry_metadata = example_metadata ''d1''\<rparr>,
      \<lparr>entry_chunk_id = ''c3'', entry_embedding = [1, 0],
       entry_metadata = example_metadata ''d2''\<rparr>]"


section \<open>Properties of the API client\<close>

lemma append_each_map: "append_each n vs ps = ps @ map (Pair n) vs"
  by (induction vs arbitrary: ps) auto

text \<open>
  C7, as amended. For every question string and options object, \<open>askSingle\<close> issues
  exactly one request, a POST to \<open>/questions/single\<close> without a body, and returns what the
  server answers to it, unchanged. The parameters of the query string are, in this order:
  \<open>question\<close> with the question text; \<open>top_k\<close> with the option's value exactly when
  that value is truthy; and one \<open>document_ids\<close> per element of \<open>options.document_ids\<close>.
\<close>

theorem askSingle_request_shape:
  "askSingle post q opts = ([askSingle_request q opts], post (askSingle_request q opts))
   \<and> request_method (askSingle_request q opts) = POST
   \<and> url (askSingle_request q opts) = js ''/questions/single?''
   \<and> body (askSingle_request q opts) = NoBody
   \<and> search_params (askSingle_request q opts)
       = [(''question'', JSString q)]
         @ (if truthy (top_k opts) then [(''top_k'', top_k opts)] else [])
         @ (case document_ids opts of None \<Rightarrow> [] | Some ids \<Rightarrow> map (Pair ''document_ids'') ids)"
  by (simp add: askSingle_def askSingle_request_def askSingle_params_def append_if_truthy_def
      append_each_map Let_def split: option.splits)

text \<open>
  C7 as stated fails: with \<open>top_k: 0\<close> the option is provided, and the query string has
  no \<open>top_k\<close> parameter.
\<close>

theorem askSingle_top_k_zero_counterexample:
  "top_k (no_options\<lparr>top_k := JSNumber (Finite 0)\<rparr>) \<noteq> JSUndefined
   \<and> ''top_k'' \<notin> fst ` set (search_params
         (askSingle_request (js ''soru'') (no_options\<lparr>top_k := JSNumber (Finite 0)\<rparr>)))"
  by (simp add: askSingle_request_def askSingle_params_def append_if_truthy_def no_options_def
      Let_def)






section \<open>Properties of the question form\<close>

text \<open>
  C9. When the question is empty after trimming, the submit handler shows the error
  toast and returns: it issues no request, and the stored question text and the loading
  flag are the ones it started with.
\<close>

theorem handleSubmit_blank_question:
  assumes "trim (question s) = []"
  shows "handleSubmit post clk has_callback s
           = (s, [PreventDefault, ToastError please_write_a_question])
         \<and> (\<forall>r. Request r \<notin> set (snd (handleSubmit post clk has_callback s)))
         \<and> question (fst (handleSubmit post clk has_callback s)) = question s
         \<and> loading (fst (handleSubmit post clk has_callback s)) = loading s"
  using assms by (simp add: handleSubmit_def)

theorem handleSubmit_blank_question_witness:
  "trim (question blank_form) = []
   \<and> handleSubmit answering_server example_clock True blank_form
       = (blank_form, [PreventDefault, ToastError please_write_a_question])"
proof -
  have blank: "trim (question blank_form) = []"
    by (simp add: blank_form_def trim_def isWhiteSpace_def)
  from handleSubmit_blank_question
         [where s = blank_form and post = answering_server and clk = example_clock
            and has_callback = True, OF blank] blank
  show ?thesis by blast
qed

text \<open>
  C4. When the question is not blank and the server answers with \<open>r\<close>, the handler
  issues the one request of \<open>askSingle\<close> and hands the callback one object shaped like a
  question batch: one question in total, one completed, none failed, \<open>r\<close> as the only
  result, and the processing time of \<open>r\<close> as the total processing time.
\<close>

theorem handleSubmit_success_is_batch_of_one:
  assumes "trim (question s) \<noteq> []"
    and "post (askSingle_request (question s) no_options) = Inr r"
  shows "\<exists>b. snd (handleSubmit post clk True s)
               = [PreventDefault, Request (askSingle_request (question s) no_options),
                  ToastSuccess question_answered (Some robot_icon), Callback b]
             \<and> total_questions b = 1 \<and> completed b = 1 \<and> failed b = 0
             \<and> results b = [r] \<and> total_processing_time b = processing_time r"
  using assms by (simp add: handleSubmit_def askSingle_def)

theorem handleSubmit_success_is_batch_of_one_witness:
  "trim (question example_form) \<noteq> []
   \<and> answering_server (askSingle_request (question example_form) no_options) = Inr example_answer
   \<and> (\<exists>b. snd (handleSubmit answering_server example_clock True example_form)
               = [PreventDefault, Request (askSingle_request (question example_form) no_options),
                  ToastSuccess question_answered (Some robot_icon), Callback b]
             \<and> total_questions b = 1 \<and> completed b = 1 \<and> failed b = 0
             \<and> results b = [example_answer]
             \<and> total_processing_time b = processing_time example_answer)"
proof -
  have filled: "trim (question example_form) \<noteq> []"
    by (simp add: example_form_def trim_def isWhiteSpace_def js_def)
  have served:
    "answering_server (askSingle_request (question example_form) no_options) = Inr example_answer"
    by (simp add: answering_server_def)
  from handleSubmit_success_is_batch_of_one
         [where s = example_form and post = answering_server and r = example_answer
            and clk = example_clock, OF filled served] filled served
  show ?thesis by blast
qed


section \<open>Properties of the document list\<close>

lemma count_list_filter_kept: "P x \<Longrightarrow> count_list (filter P xs) x = count_list xs x"
  by (induction xs) auto

text \<open>
  C6. After a confirmed and successful delete of document \<open>d\<close>, the displayed list is
  the old list without the entries whose \<open>document_id\<close> is \<open>d\<close>: it is a subsequence of
  the old list (the entries kept are unchanged and in their old order), every entry with
  another \<open>document_id\<close>, or with none, occurs as often as before, and no entry of \<open>d\<close> is
  left.
\<close>

theorem handleDelete_removes_exactly:
  assumes "confirm (confirm_delete fileName)"
    and "del (delete_request d) = Inr ok"
  shows "uploadedFiles (fst (handleDelete confirm del has_callback s d fileName))
           = filter (\<lambda>f. document_id f \<noteq> Some d) (uploadedFiles s)
         \<and> subseq (uploadedFiles (fst (handleDelete confirm del has_callback s d fileName)))
             (uploadedFiles s)
         \<and> (\<forall>f. document_id f \<noteq> Some d \<longrightarrow>
               count_list (uploadedFiles (fst (handleDelete confirm del has_callback s d fileName))) f
                 = count_list (uploadedFiles s) f)
         \<and> (\<forall>f. document_id f = Some d \<longrightarrow>
               f \<notin> set (uploadedFiles (fst (handleDelete confirm del has_callback s d fileName))))"
proof -
  have new: "uploadedFiles (fst (handleDelete confirm del has_callback s d fileName))
           = filter (\<lambda>f. document_id f \<noteq> Some d) (uploadedFiles s)"
    using assms by (simp add: handleDelete_def documentAPI_delete_def)
  show ?thesis
    unfolding new by (simp add: count_list_filter_kept)
qed

theorem handleDelete_removes_exactly_witness:
  "always_confirm (confirm_delete (js ''report.pdf''))
   \<and> deleting_server (delete_request (js ''doc-1'')) = Inr ()
   \<and> uploadedFiles (fst (handleDelete always_confirm deleting_server True example_list
         (js ''doc-1'') (js ''report.pdf'')))
       = [broken_entry, notes_entry]"
proof -
  have yes: "always_confirm (confirm_delete (js ''report.pdf''))"
    by (simp add: always_confirm_def)
  have gone: "deleting_server (delete_request (js ''doc-1'')) = Inr ()"
    by (simp add: deleting_server_def)
  have kept: "filter (\<lambda>f. document_id f \<noteq> Some (js ''doc-1'')) (uploadedFiles example_list)
                = [broken_entry, notes_entry]"
    by (simp add: example_list_def report_entry_def broken_entry_def notes_entry_def js_def)
  from handleDelete_removes_exactly
         [where confirm = always_confirm and del = deleting_server and d = "js ''doc-1''"
            and fileName = "js ''report.pdf''" and s = example_list and has_callback = True
            and ok = "()", OF yes gone] yes gone kept
  show ?thesis by simp
qed


lemma report_rejected_Cons:
  "errors a = c # cs \<Longrightarrow>
     report_rejected (a # rs)
       = ((if c = ''file-too-large'' then
             [ToastError (file_too_large (file_name (rejected_file a)))]
           else if c = ''file-invalid-type'' then
             [ToastError (unsupported_format (file_name (rejected_file a)))]
           else []) @ fst (report_rejected rs),
          snd (report_rejected rs))"
  by (simp add: case_prod_beta)

lemma report_rejected_no_request: "Request q \<notin> set (fst (report_rejected rs))"
proof (induction rs)
  case Nil
  show ?case by simp
next
  case (Cons a rs)
  show ?case
  proof (cases "errors a")
    case Nil
    then show ?thesis by simp
  next
    case (Cons c cs)
    with Cons.IH show ?thesis by (simp add: report_rejected_Cons del: report_rejected.simps)
  qed
qed

lemma report_rejected_completes:
  "\<forall>r\<in>set rs. errors r \<noteq> [] \<Longrightarrow> snd (report_rejected rs) = None"
proof (induction rs)
  case Nil
  show ?case by simp
next
  case (Cons a rs)
  then obtain c cs where "errors a = c # cs" by (cases "errors a") auto
  with Cons show ?case by (simp add: report_rejected_Cons del: report_rejected.simps)
qed

lemma report_rejected_too_large:
  assumes "\<forall>r\<in>set rs. errors r \<noteq> []"
    and "r \<in> set rs"
    and "errors r = ''file-too-large'' # others"
  shows "ToastError (file_too_large (file_name (rejected_file r))) \<in> set (fst (report_rejected rs))"
  using assms
proof (induction rs)
  case Nil
  then show ?case by simp
next
  case (Cons a rs)
  from Cons.prems obtain c cs where a: "errors a = c # cs"
    by (cases "errors a") auto
  show ?case
  proof (cases "a = r")
    case True
    with Cons.prems a show ?thesis by (simp add: report_rejected_Cons del: report_rejected.simps)
  next
    case False
    with Cons.prems have "r \<in> set rs" by simp
    with Cons have "ToastError (file_too_large (file_name (rejected_file r)))
        \<in> set (fst (report_rejected rs))" by simp
    with a show ?thesis by (simp add: report_rejected_Cons del: report_rejected.simps)
  qed
qed

lemma upload_each_requests:
  "Request q \<in> set (snd (upload_each post fs)) \<Longrightarrow> q \<in> upload_request ` set fs"
  by (induction fs)
     (auto simp: documentAPI_upload_def Let_def case_prod_beta split: sum.splits)

lemma onDrop_effects:
  "fst (snd (onDrop post cb s acc rej))
     = fst (report_rejected rej)
       @ (if snd (report_rejected rej) = None \<and> acc \<noteq> [] then
            snd (upload_each post acc)
              @ (if cb then [Callback (Some (fst (upload_each post acc)))] else [])
          else [])"
  by (cases "report_rejected rej")
     (simp add: onDrop_def case_prod_beta split: option.splits)

lemma onDrop_requests:
  "Request q \<in> set (fst (snd (onDrop post cb s acc rej))) \<Longrightarrow> q \<in> upload_request ` set acc"
  using report_rejected_no_request [of q rej]
  by (auto simp: onDrop_effects split: if_splits dest: upload_each_requests)

lemma upload_request_inj: "upload_request f = upload_request g \<Longrightarrow> f = g"
  by (simp add: upload_request_def)

lemma dropzone_accepted:
  "dropzone_drop matches opts files = Some (acc, rej) \<Longrightarrow> g \<in> set acc
     \<Longrightarrow> g \<in> set files \<and> file_size g \<le> maxSize opts \<and> matches (accept opts) g"
  by (auto simp: dropzone_drop_def dropzone_errors_def Let_def split: if_splits)

lemma dropzone_rejections_have_errors:
  "dropzone_drop matches opts files = Some (acc, rej) \<Longrightarrow> \<forall>r\<in>set rej. errors r \<noteq> []"
  by (auto simp: dropzone_drop_def Let_def split: if_splits)

lemma dropzone_too_large:
  assumes "dropzone_drop matches opts files = Some (acc, rej)"
    and "f \<in> set files" and "maxSize opts < file_size f" and "matches (accept opts) f"
  shows "\<lparr>rejected_file = f, errors = [''file-too-large'']\<rparr> \<in> set rej"
  using assms
  by (auto simp: dropzone_drop_def dropzone_errors_def Let_def image_iff split: if_splits)

text \<open>
  C5, as amended. A dropped file larger than the 10 MiB of \<open>maxSize\<close> is never sent to
  the upload endpoint: every upload request of a drop carries one of the dropped files
  of at most that size. When no upload is in progress and the file's type is accepted,
  the component shows the toast that the file is too large.
\<close>

theorem oversized_file_is_never_uploaded:
  assumes "f \<in> set files" and "10 * 1024 * 1024 < file_size f"
  shows "Request (upload_request f) \<notin> set (fst (snd (drop_files matches post has_callback s files)))
         \<and> (\<forall>q. Request q \<in> set (fst (snd (drop_files matches post has_callback s files)))
               \<longrightarrow> (\<exists>g\<in>set files. q = upload_request g \<and> file_size g \<le> 10 * 1024 * 1024))
         \<and> (\<not> uploading s \<and> matches (accept (useDropzone_options s)) f
               \<longrightarrow> ToastError (file_too_large (file_name f))
                     \<in> set (fst (snd (drop_files matches post has_callback s files))))"
proof -
  let ?opts = "useDropzone_options s"
  let ?effects = "fst (snd (drop_files matches post has_callback s files))"
  have max: "maxSize ?opts = 10 * 1024 * 1024"
    by (simp add: useDropzone_options_def)
  have sent: "\<exists>g\<in>set files. q = upload_request g \<and> file_size g \<le> 10 * 1024 * 1024"
    if "Request q \<in> set ?effects" for q
  proof (cases "dropzone_drop matches ?opts files")
    case None
    with that show ?thesis by (simp add: drop_files_def)
  next
    case (Some p)
    obtain acc rej where p: "p = (acc, rej)" by (cases p)
    from that Some p have "Request q \<in> set (fst (snd (onDrop post has_callback s acc rej)))"
      by (simp add: drop_files_def)
    then obtain g where "g \<in> set acc" "q = upload_request g"
      by (auto dest: onDrop_requests)
    with dropzone_accepted [of matches ?opts files acc rej g] Some p max
    show ?thesis by auto
  qed
  have not_sent: "Request (upload_request f) \<notin> set ?effects"
  proof
    assume "Request (upload_request f) \<in> set ?effects"
    from sent [OF this] obtain g where "upload_request f = upload_request g"
      "file_size g \<le> 10 * 1024 * 1024" by auto
    with upload_request_inj [of f g] assms(2) show False by simp
  qed
  have told: "ToastError (file_too_large (file_name f)) \<in> set ?effects"
    if "\<not> uploading s" "matches (accept ?opts) f"
  proof -
    from that(1) obtain acc rej where d: "dropzone_drop matches ?opts files = Some (acc, rej)"
      by (cases "dropzone_drop matches ?opts files")
         (auto simp: dropzone_drop_def useDropzone_options_def)
    from dropzone_too_large [OF d assms(1) _ that(2)] assms(2) max
    have r: "\<lparr>rejected_file = f, errors = [''file-too-large'']\<rparr> \<in> set rej" by simp
    from dropzone_rejections_have_errors [OF d]
    have e: "\<forall>r\<in>set rej. errors r \<noteq> []" .
    from report_rejected_too_large [OF e r]
    have "ToastError (file_too_large (file_name f)) \<in> set (fst (report_rejected rej))" by simp
    moreover from report_rejected_completes [OF e]
    have "snd (report_rejected rej) = None" .
    ultimately have "ToastError (file_too_large (file_name f))
        \<in> set (fst (snd (onDrop post has_callback s acc rej)))"
      by (simp add: onDrop_effects)
    with d show ?thesis by (simp add: drop_files_def)
  qed
  from sent not_sent told show ?thesis by blast
qed

theorem oversized_file_is_never_uploaded_witness:
  "big_report \<in> set [big_report] \<and> 10 * 1024 * 1024 < file_size big_report
   \<and> \<not> uploading idle \<and> by_mime_type (accept (useDropzone_options idle)) big_report
   \<and> Request (upload_request big_report)
       \<notin> set (fst (snd (drop_files by_mime_type upload_server True idle [big_report])))
   \<and> ToastError (file_too_large (file_name big_report))
       \<in> set (fst (snd (drop_files by_mime_type upload_server True idle [big_report])))"
proof -
  have dropped: "big_report \<in> set [big_report]" by simp
  have big: "10 * 1024 * 1024 < file_size big_report" by (simp add: big_report_def)
  have enabled: "\<not> uploading idle" by (simp add: idle_def)
  have pdf: "by_mime_type (accept (useDropzone_options idle)) big_report"
    by (simp add: by_mime_type_def useDropzone_options_def big_report_def)
  from oversized_file_is_never_uploaded
         [where f = big_report and files = "[big_report]" and matches = by_mime_type
            and post = upload_server and has_callback = True and s = idle, OF dropped big]
       dropped big enabled pdf
  show ?thesis by blast
qed

text \<open>
  C5 as stated fails: an archive of 20 MiB, of a type the drop zone does not accept, is
  rejected with \<open>file-invalid-type\<close> as its first error, and the only toast says that the
  format is not supported.
\<close>

theorem oversized_archive_counterexample:
  "maxSize (useDropzone_options idle) < file_size big_archive
   \<and> drop_files by_mime_type upload_server True idle [big_archive]
       = (idle, [ToastError (unsupported_format (file_name big_archive))], None)
   \<and> ToastError (file_too_large (file_name big_archive))
       \<notin> set (fst (snd (drop_files by_mime_type upload_server True idle [big_archive])))"
  by (simp add: drop_files_def dropzone_drop_def dropzone_errors_def useDropzone_options_def
      onDrop_def idle_def big_archive_def by_mime_type_def unsupported_format_def
      file_too_large_def js_def Let_def)


section \<open>Properties of the result badges\<close>

text \<open>
  A value that is neither a key of the table nor the name of a property of
  \<open>Object.prototype\<close> gets the fallback badge.
\<close>

lemma unknown_value_falls_back:
  assumes "v \<notin> js ` set object_prototype_properties"
  shows "v \<notin> js ` {''verified'', ''partial'', ''unverified''}
           \<Longrightarrow> VerificationBadge v = VerificationBadge (js ''unverified'')"
    and "v \<notin> js ` {''exact'', ''paraphrase'', ''inference''}
           \<Longrightarrow> MatchTypeBadge v = MatchTypeBadge (js ''inference'')"
proof -
  from assms have none: "filter (\<lambda>k. js k = v) object_prototype_properties = []"
    by (auto simp: filter_empty_conv)
  have u: "VerificationBadge (js ''unverified'')
             = (case Own unverified_config of Own config \<Rightarrow>
          Inr \<lparr>div_class =
                 ''flex items-center space-x-1.5 px-3 py-1.5 rounded-lg border ''
                   @ bgColor config @ '' '' @ borderColor config,
               shown_icon = badge_icon config,
               icon_class = ''w-4 h-4 '' @ textColor config,
               label_class = ''text-xs font-semibold '' @ textColor config,
               label = badge_text config\<rparr>
      | _ \<Rightarrow> Inl InvalidElementType)"
    by (simp add: VerificationBadge_def property_or_def get_property_def verification_configs_def
        js_def)
  show "VerificationBadge v = VerificationBadge (js ''unverified'')"
    if "v \<notin> js ` {''verified'', ''partial'', ''unverified''}"
    using that none unfolding u
    by (auto simp: VerificationBadge_def property_or_def get_property_def verification_configs_def)
  have i: "MatchTypeBadge (js ''inference'')
             = \<lparr>span_class =
             ''px-2 py-1 rounded text-xs font-medium ''
               @ match_bgColor inference_config @ '' '' @ match_textColor inference_config,
           span_text = Some (match_text inference_config)\<rparr>"
    by (simp add: MatchTypeBadge_def property_or_def get_property_def match_configs_def js_def)
  show "MatchTypeBadge v = MatchTypeBadge (js ''inference'')"
    if "v \<notin> js ` {''exact'', ''paraphrase'', ''inference''}"
    using that none unfolding i
    by (auto simp: MatchTypeBadge_def property_or_def get_property_def match_configs_def)
qed

text \<open>
  C10 does not hold of the code. \<open>constructor\<close> is none of the three statuses, yet
  \<open>configs[status]\<close> finds the property every object inherits, the fallback is not taken,
  and the render of the verification badge throws; the match badge of \<open>constructor\<close> is
  not the one of \<open>inference\<close>.
\<close>

theorem badge_of_inherited_property:
  "VerificationBadge (js ''constructor'') = Inl InvalidElementType
   \<and> VerificationBadge (js ''constructor'') \<noteq> VerificationBadge (js ''unverified'')
   \<and> MatchTypeBadge (js ''constructor'') \<noteq> MatchTypeBadge (js ''inference'')"
  by (simp add: VerificationBadge_def MatchTypeBadge_def property_or_def get_property_def
      verification_configs_def match_configs_def object_prototype_properties_def js_def
      inference_config_def)


section \<open>Properties of the chunker\<close>

lemma chunk_end_le: "start \<le> length doc \<Longrightarrow> chunk_end cut_at doc chunk_size chunk_overlap start \<le> length doc"
  by (simp add: chunk_end_def Let_def)

lemma chunk_end_advances:
  "chunk_overlap < chunk_size \<Longrightarrow> chunk_end cut_at doc chunk_size chunk_overlap start < length doc
     \<Longrightarrow> start + chunk_overlap < chunk_end cut_at doc chunk_size chunk_overlap start"
  by (auto simp: chunk_end_def Let_def min_def split: if_splits)


lemma removed_overlap:
  assumes "chunk_overlap < chunk_size"
  shows "concat (map (drop chunk_overlap \<circ> draft_text)
           (chunk_from cut_at doc pbs chunk_size chunk_overlap start))
         = drop (start + chunk_overlap) doc"
  using assms
proof (induction cut_at doc pbs chunk_size chunk_overlap start rule: chunk_from.induct)
  case (1 cut_at doc pbs chunk_size chunk_overlap start)
  let ?stop = "chunk_end cut_at doc chunk_size chunk_overlap start"
  show ?case
  proof (cases "length doc \<le> ?stop")
    case True
    then have "take (?stop - start) (drop start doc) = drop start doc" by simp
    with True show ?thesis
      by (subst chunk_from.simps) (simp add: Let_def add.commute)
  next
    case False
    with "1.prems" have adv: "start + chunk_overlap < ?stop"
      by (simp add: chunk_end_advances)
    from False "1.prems" "1.IH" [OF refl refl]
    have rest: "concat (map (drop chunk_overlap \<circ> draft_text)
           (chunk_from cut_at doc pbs chunk_size chunk_overlap (?stop - chunk_overlap)))
         = drop (?stop - chunk_overlap + chunk_overlap) doc"
      by (simp add: comp_def)
    from adv have again: "?stop - chunk_overlap + chunk_overlap = ?stop" by simp
    have first: "drop chunk_overlap (take (?stop - start) (drop start doc))
                   = take (?stop - (start + chunk_overlap)) (drop (start + chunk_overlap) doc)"
      by (simp add: drop_take add.commute)
    have whole: "take (?stop - (start + chunk_overlap)) (drop (start + chunk_overlap) doc)
                   @ drop ?stop doc = drop (start + chunk_overlap) doc"
    proof -
      from adv have "drop ?stop doc
          = drop (?stop - (start + chunk_overlap)) (drop (start + chunk_overlap) doc)"
        by simp
      then show ?thesis by (simp only: append_take_drop_id)
    qed
    from False "1.prems" show ?thesis
      by (subst chunk_from.simps) (simp add: Let_def rest again first whole)
  qed
qed

lemma reassemble_chunk_from:
  assumes "chunk_overlap < chunk_size"
  shows "reassemble chunk_overlap
           (map draft_text (chunk_from cut_at doc pbs chunk_size chunk_overlap start))
         = drop start doc"
proof -
  let ?stop = "chunk_end cut_at doc chunk_size chunk_overlap start"
  show ?thesis
  proof (cases "length doc \<le> ?stop")
    case True
    then show ?thesis
      by (subst chunk_from.simps) (simp add: Let_def)
  next
    case False
    with assms have adv: "start + chunk_overlap < ?stop"
      by (simp add: chunk_end_advances)
    then have again: "?stop - chunk_overlap + chunk_overlap = ?stop" by simp
    have "take (?stop - start) (drop start doc) @ drop ?stop doc = drop start doc"
    proof -
      from adv have "drop ?stop doc = drop (?stop - start) (drop start doc)" by simp
      then show ?thesis by (simp only: append_take_drop_id)
    qed
    with False assms show ?thesis
      by (subst chunk_from.simps)
         (simp add: Let_def removed_overlap [OF assms] again)
  qed
qed

text \<open>
  C1. For every text, every page boundaries, every cut rule and every configuration
  with \<open>chunk_overlap < chunk_size\<close>, \<open>chunk\<close> returns chunks, and their texts
  concatenated in order, without the first \<open>chunk_overlap\<close> characters of every chunk
  after the first, are the text.
\<close>

theorem chunks_reassemble_to_text:
  assumes "chunk_overlap < chunk_size"
  shows "\<exists>drafts. chunk cut_at doc pbs chunk_size chunk_overlap = Inr drafts
           \<and> reassemble chunk_overlap (map draft_text drafts) = doc"
  using assms reassemble_chunk_from [OF assms, of cut_at doc pbs 0]
  by (auto simp: chunk_def)

theorem chunks_reassemble_to_text_witness:
  "(1::nat) < 4
   \<and> chunk fixed_cut ''abcdefghij'' [0, 4, 8] 4 1
       = Inr [\<lparr>draft_text = ''abcd'', char_offset_range = (0, 4), draft_page_number = Some 1\<rparr>,
              \<lparr>draft_text = ''defg'', char_offset_range = (3, 7), draft_page_number = Some 1\<rparr>,
              \<lparr>draft_text = ''ghij'', char_offset_range = (6, 10), draft_page_number = Some 2\<rparr>]
   \<and> reassemble 1 [''abcd'', ''defg'', ''ghij''] = ''abcdefghij''"
proof -
  have valid: "(1::nat) < 4" by simp
  have chunks: "chunk fixed_cut ''abcdefghij'' [0, 4, 8] 4 1
       = Inr [\<lparr>draft_text = ''abcd'', char_offset_range = (0, 4), draft_page_number = Some 1\<rparr>,
              \<lparr>draft_text = ''defg'', char_offset_range = (3, 7), draft_page_number = Some 1\<rparr>,
              \<lparr>draft_text = ''ghij'', char_offset_range = (6, 10), draft_page_number = Some 2\<rparr>]"
    by (simp add: chunk_def chunk_from.simps chunk_end_def fixed_cut_def page_of_def Let_def)
  from chunks_reassemble_to_text [OF valid, of fixed_cut "''abcdefghij''" "[0, 4, 8]"] chunks
  have "reassemble 1 [''abcd'', ''defg'', ''ghij''] = ''abcdefghij''" by auto
  with valid chunks show ?thesis by blast
qed

text \<open>
  The scenario of section 8: 1500 characters on three pages with \<open>chunk_size = 500\<close> and
  \<open>chunk_overlap = 50\<close> give four chunks, the first of 500 characters.
\<close>

lemma scenario_1500_characters:
  "map char_offset_range
     (projr (chunk fixed_cut (replicate 1500 CHR ''x'') [0, 500, 1000] 500 50))
   = [(0, 500), (450, 950), (900, 1400), (1350, 1500)]"
  by (simp add: chunk_def chunk_from.simps chunk_end_def fixed_cut_def page_of_def Let_def)


section \<open>Properties of the embedding index\<close>

lemma query_ids: "fst ` set (query idx q k flt) \<subseteq> entry_chunk_id ` set idx"
proof -
  have "set (query idx q k flt)
          \<subseteq> (\<lambda>e. (entry_chunk_id e, cosine q (entry_embedding e))) ` set idx"
    unfolding query_def using set_take_subset by fastforce
  then show ?thesis by force
qed

lemma upsert_owned: "meta_document_id md = doc \<Longrightarrow> owned_by cid doc (upsert cid emb md idx)"
  by (auto simp: owned_by_def upsert_def Let_def)

lemma apply_op_owned:
  "owned_by cid doc idx \<Longrightarrow> \<not> upserts_chunk cid op \<Longrightarrow> owned_by cid doc (apply_op idx op)"
  by (cases op) (auto simp: owned_by_def upsert_def delete_def Let_def)

lemma run_ops_owned:
  "owned_by cid doc idx \<Longrightarrow> \<forall>op\<in>set ops. \<not> upserts_chunk cid op
     \<Longrightarrow> owned_by cid doc (run_ops idx ops)"
  unfolding run_ops_def
  by (induction ops arbitrary: idx) (simp_all add: apply_op_owned)

lemma delete_owned: "owned_by cid doc idx \<Longrightarrow> cid \<notin> entry_chunk_id ` set (delete doc idx)"
  by (auto simp: owned_by_def delete_def)

lemma apply_op_absent:
  "cid \<notin> entry_chunk_id ` set idx \<Longrightarrow> \<not> upserts_chunk cid op
     \<Longrightarrow> cid \<notin> entry_chunk_id ` set (apply_op idx op)"
  by (cases op) (auto simp: upsert_def delete_def Let_def)

lemma run_ops_absent:
  "cid \<notin> entry_chunk_id ` set idx \<Longrightarrow> \<forall>op\<in>set ops. \<not> upserts_chunk cid op
     \<Longrightarrow> cid \<notin> entry_chunk_id ` set (run_ops idx ops)"
  unfolding run_ops_def
  by (induction ops arbitrary: idx) (simp_all add: apply_op_absent)

text \<open>
  C2. A chunk is upserted under document \<open>doc\<close>; operations that do not upsert this chunk
  again follow; the document is deleted; more such operations follow. Then no query,
  whatever its embedding, its \<open>k\<close> and its filter, returns the chunk.
\<close>

theorem deleted_chunk_is_never_returned:
  assumes "meta_document_id md = doc"
    and "\<forall>op\<in>set before. \<not> upserts_chunk cid op"
    and "\<forall>op\<in>set after. \<not> upserts_chunk cid op"
  shows "cid \<notin> fst ` set (query
           (run_ops (delete doc (run_ops (upsert cid emb md idx) before)) after) q k flt)"
proof -
  from assms(1) have "owned_by cid doc (upsert cid emb md idx)" by (rule upsert_owned)
  with assms(2) have "owned_by cid doc (run_ops (upsert cid emb md idx) before)"
    by (simp add: run_ops_owned)
  then have "cid \<notin> entry_chunk_id ` set (delete doc (run_ops (upsert cid emb md idx) before))"
    by (rule delete_owned)
  with assms(3)
  have "cid \<notin> entry_chunk_id `
          set (run_ops (delete doc (run_ops (upsert cid emb md idx) before)) after)"
    by (simp add: run_ops_absent)
  with query_ids show ?thesis by blast
qed

theorem deleted_chunk_is_never_returned_witness:
  "meta_document_id (example_metadata ''d1'') = ''d1''
   \<and> \<not> upserts_chunk ''c4'' (Delete ''d3'')
   \<and> \<not> upserts_chunk ''c4'' (Upsert ''c5'' [1, 0] (example_metadata ''d2''))
   \<and> ''c4'' \<notin> fst ` set (query
         (run_ops (delete ''d1''
            (run_ops (upsert ''c4'' [0, 1] (example_metadata ''d1'') example_index)
               [Delete ''d3'']))
            [Upsert ''c5'' [1, 0] (example_metadata ''d2'')]) [1, 0] 5 None)
   \<and> query
         (run_ops (delete ''d1''
            (run_ops (upsert ''c4'' [0, 1] (example_metadata ''d1'') example_index)
               [Delete ''d3'']))
            [Upsert ''c5'' [1, 0] (example_metadata ''d2'')]) [1, 0] 5 None
       = [(''c3'', 1), (''c5'', 1)]"
proof -
  have owner: "meta_document_id (example_metadata ''d1'') = ''d1''"
    by (simp add: example_metadata_def)
  have before: "\<forall>op\<in>set [Delete ''d3'']. \<not> upserts_chunk ''c4'' op" by simp
  have after: "\<forall>op\<in>set [Upsert ''c5'' [1, 0] (example_metadata ''d2'')].
                 \<not> upserts_chunk ''c4'' op" by simp
  have ranking: "query
         (run_ops (delete ''d1''
            (run_ops (upsert ''c4'' [0, 1] (example_metadata ''d1'') example_index)
               [Delete ''d3'']))
            [Upsert ''c5'' [1, 0] (example_metadata ''d2'')]) [1, 0] 5 None
       = [(''c3'', 1), (''c5'', 1)]"
    by (simp add: query_def run_ops_def delete_def upsert_def example_index_def
        example_metadata_def in_filter_def cosine_def dot_def Let_def)
  from deleted_chunk_is_never_returned
         [OF owner before after, of "[0, 1]" example_index "[1, 0]" 5 None]
       owner before after ranking
  show ?thesis by simp
qed

text \<open>The operations keep the chunk identifiers of the index distinct.\<close>

lemma distinct_upsert:
  assumes "distinct (map entry_chunk_id idx)"
  shows "distinct (map entry_chunk_id (upsert cid emb md idx))"
proof -
  have same: "entry_chunk_id \<circ>
          (\<lambda>e. if entry_chunk_id e = cid
                then \<lparr>entry_chunk_id = cid, entry_embedding = emb, entry_metadata = md\<rparr>
                else e)
        = entry_chunk_id"
    by (auto simp: fun_eq_iff)
  from assms show ?thesis
    by (simp add: upsert_def Let_def same)
qed

lemma distinct_run_ops:
  "distinct (map entry_chunk_id idx) \<Longrightarrow> distinct (map entry_chunk_id (run_ops idx ops))"
  unfolding run_ops_def
proof (induction ops arbitrary: idx)
  case Nil
  then show ?case by simp
next
  case (Cons op ops)
  have "distinct (map entry_chunk_id (apply_op idx op))"
    using Cons.prems by (cases op) (simp_all add: distinct_upsert delete_def distinct_map_filter)
  then show ?case using Cons.IH by simp
qed


section \<open>Properties of the retriever\<close>

lemma length_map_filter: "length (List.map_filter f xs) \<le> length xs"
  by (induction xs) (auto simp: List.map_filter_simps split: option.splits)

lemma set_map_filter: "set (List.map_filter f xs) = {y. \<exists>x\<in>set xs. f x = Some y}"
  by (induction xs) (auto simp: List.map_filter_simps split: option.splits)

lemma query_scores:
  "set (query idx q k flt)
     \<subseteq> (\<lambda>e. (entry_chunk_id e, cosine q (entry_embedding e))) ` {e \<in> set idx. in_filter flt e}"
  unfolding query_def using set_take_subset by fastforce

lemma find_chunk:
  "find (\<lambda>e. entry_chunk_id e = cid) idx = Some e \<Longrightarrow> e \<in> set idx \<and> entry_chunk_id e = cid"
  by (auto simp: find_Some_iff)

lemma same_chunk:
  "distinct (map entry_chunk_id idx) \<Longrightarrow> e \<in> set idx \<Longrightarrow> e' \<in> set idx
     \<Longrightarrow> entry_chunk_id e = entry_chunk_id e' \<Longrightarrow> e = e'"
  by (auto simp: distinct_map dest: inj_onD)

text \<open>
  C3. On an available index, for every question text, \<open>top_k\<close> and
  \<open>min_relevance_score\<close>, \<open>retrieve\<close> returns a sequence and no error; the sequence has
  at most \<open>top_k\<close> chunks, every one of them a chunk of the index with a score of at least
  \<open>min_relevance_score\<close> (its cosine similarity to the embedded question, when the
  chunk identifiers of the index are distinct); and the sequence is empty when no chunk in
  the scope of the question reaches the threshold.
\<close>

theorem retrieve_within_top_k_and_threshold:
  "\<exists>rs. retrieve embedder (Some idx) qtext k min_score docs = Inr rs
       \<and> length rs \<le> k
       \<and> (\<forall>(e, score)\<in>set rs. e \<in> set idx \<and> min_score \<le> score)
       \<and> (distinct (map entry_chunk_id idx) \<longrightarrow>
            (\<forall>(e, score)\<in>set rs. score = cosine (embedder qtext) (entry_embedding e)))
       \<and> ((\<forall>e\<in>set idx. in_filter docs e \<longrightarrow> cosine (embedder qtext) (entry_embedding e) < min_score)
            \<longrightarrow> rs = [])"
proof -
  let ?ranked = "query idx (embedder qtext) k docs"
  let ?relevant = "filter (\<lambda>(cid, score). min_score \<le> score) ?ranked"
  let ?rs = "List.map_filter
               (\<lambda>(cid, score).
                  map_option (\<lambda>e. (e, score)) (find (\<lambda>e. entry_chunk_id e = cid) idx))
               ?relevant"
  have r: "retrieve embedder (Some idx) qtext k min_score docs = Inr ?rs"
    by (simp add: retrieve_def Let_def)
  have "length ?rs \<le> length ?relevant" by (rule length_map_filter)
  also have "\<dots> \<le> length ?ranked" by simp
  also have "\<dots> \<le> k" by (simp add: query_def)
  finally have len: "length ?rs \<le> k" .
  have origin: "\<exists>cid. (cid, score) \<in> set ?ranked \<and> min_score \<le> score
                  \<and> e \<in> set idx \<and> entry_chunk_id e = cid"
    if "(e, score) \<in> set ?rs" for e score
    using that by (auto simp: set_map_filter dest: find_chunk)
  have thr: "\<forall>(e, score)\<in>set ?rs. e \<in> set idx \<and> min_score \<le> score"
    using origin by blast
  have exact: "\<forall>(e, score)\<in>set ?rs. score = cosine (embedder qtext) (entry_embedding e)"
    if d: "distinct (map entry_chunk_id idx)"
  proof -
    have "score = cosine (embedder qtext) (entry_embedding e)" if "(e, score) \<in> set ?rs" for e score
    proof -
      from origin [OF that] obtain cid where c: "(cid, score) \<in> set ?ranked"
        and e: "e \<in> set idx" "entry_chunk_id e = cid" by blast
      from c query_scores [of idx "embedder qtext" k docs]
      obtain e' where e': "e' \<in> set idx" "cid = entry_chunk_id e'"
        "score = cosine (embedder qtext) (entry_embedding e')" by auto
      from same_chunk [OF d e(1) e'(1)] e(2) e'(2) have "e = e'" by simp
      with e'(3) show ?thesis by simp
    qed
    then show ?thesis by blast
  qed
  have none: "?rs = []"
    if "\<forall>e\<in>set idx. in_filter docs e \<longrightarrow> cosine (embedder qtext) (entry_embedding e) < min_score"
  proof -
    from that query_scores [of idx "embedder qtext" k docs]
    have "\<forall>(cid, score)\<in>set ?ranked. \<not> min_score \<le> score" by fastforce
    then have "?relevant = []" by (auto simp: filter_empty_conv)
    then show ?thesis by simp
  qed
  from r len thr exact none show ?thesis by blast
qed

theorem retrieve_within_top_k_and_threshold_witness:
  "retrieve example_embedder (Some example_index) ''soru'' 2 2 None = Inr []
   \<and> (\<exists>rs. retrieve example_embedder (Some example_index) ''soru'' 2 (1 / 2) None = Inr rs
         \<and> length rs \<le> 2 \<and> map snd rs = [1, 3 / 5])"
proof -
  have below: "\<forall>e\<in>set example_index. in_filter None e
                 \<longrightarrow> cosine (example_embedder ''soru'') (entry_embedding e) < 2"
    by (simp add: example_index_def example_embedder_def cosine_def dot_def in_filter_def)
  from retrieve_within_top_k_and_threshold
         [of example_embedder example_index "''soru''" 2 2 None] below
  have cleared: "retrieve example_embedder (Some example_index) ''soru'' 2 2 None = Inr []"
    by auto
  have found: "map snd (projr (retrieve example_embedder (Some example_index) ''soru'' 2 (1 / 2) None))
                 = [1, 3 / 5]"
    by (simp add: retrieve_def query_def example_index_def example_embedder_def
        in_filter_def cosine_def dot_def Let_def)
  from retrieve_within_top_k_and_threshold
         [of example_embedder example_index "''soru''" 2 "1 / 2" None] found
  have "\<exists>rs. retrieve example_embedder (Some example_index) ''soru'' 2 (1 / 2) None = Inr rs
         \<and> length rs \<le> 2 \<and> map snd rs = [1, 3 / 5]"
    by auto
  with cleared show ?thesis by blast
qed

end
